theory Spec2Isabelle
  imports Complex_Main "HOL-Library.Word"
begin

section \<open>The bridge node (locator_bridge_node.cpp)\<close>

subsection \<open>Module version gate\<close>

text \<open>
  A module version is the pair (major, minor) of \<open>int32_t\<close>. The gate only compares
  versions (no arithmetic), so the values are modelled as \<open>int\<close>.
\<close>

type_synonym version = "int \<times> int"

text \<open>
  The static table \<open>REQUIRED_MODULE_VERSIONS\<close>, with the entries the source leaves
  active (the commented-out ones are absent). It is an \<open>unordered_map\<close> with distinct
  keys; the list fixes one iteration order.
\<close>

definition REQUIRED_MODULE_VERSIONS :: "(string \<times> version) list" where
  "REQUIRED_MODULE_VERSIONS =
    [(''AboutModules'', (5, 0)),
     (''Session'', (3, 1)),
     (''Licensing'', (6, 1)),
     (''Config'', (5, 0)),
     (''AboutBuild'', (3, 0)),
     (''Certificate'', (3, 0)),
     (''System'', (3, 1)),
     (''ClientControl'', (3, 1)),
     (''ClientRecording'', (4, 0)),
     (''ClientMap'', (4, 0)),
     (''ClientLocalization'', (6, 0)),
     (''ClientGlobalAlign'', (4, 0)),
     (''ClientSensor'', (5, 1))]"

text \<open>
  The loop of \<open>check_module_versions\<close> over a table of required versions: the first
  required module that is missing, or whose version does not fit, returns false; the end
  of the table returns true.
\<close>

fun check_versions_loop :: "(string \<times> version) list \<Rightarrow> (string \<rightharpoonup> version) \<Rightarrow> bool" where
  "check_versions_loop [] module_versions = True"
| "check_versions_loop ((module_name, required_version) # rest) module_versions =
     (case module_versions module_name of
        None \<Rightarrow> False
      | Some actual_version \<Rightarrow>
          if fst actual_version = fst required_version
             \<and> snd actual_version \<ge> snd required_version
          then check_versions_loop rest module_versions
          else False)"

definition check_module_versions :: "(string \<rightharpoonup> version) \<Rightarrow> bool" where
  "check_module_versions module_versions =
     check_versions_loop REQUIRED_MODULE_VERSIONS module_versions"

text \<open>What the gate asks of one required module, in the words of the specification.\<close>

definition module_ok :: "(string \<rightharpoonup> version) \<Rightarrow> string \<times> version \<Rightarrow> bool" where
  "module_ok module_versions req =
     (case module_versions (fst req) of
        None \<Rightarrow> False
      | Some actual \<Rightarrow> fst actual = fst (snd req) \<and> snd actual \<ge> snd (snd req))"

subsection \<open>Messages, queries and effects\<close>

text \<open>
  Values of the dynamically typed RPC documents that the callbacks build. \<open>DPose2d x y a\<close>
  stands for the document that \<open>RosMsgsDatagramConverter::makePose2d\<close> builds from a
  \<open>Pose2D\<close> with the fields x, y and theta. The \<open>double\<close> and \<open>float\<close> fields of the
  messages are modelled as real numbers.
\<close>

datatype dyn = DBool bool | DString string | DPose2d real real real

type_synonym query = "(string \<times> dyn) list"

text \<open>\<open>query.set(key, value)\<close>: replaces the value of an existing key, appends a new one.\<close>

fun set_field :: "string \<Rightarrow> dyn \<Rightarrow> query \<Rightarrow> query" where
  "set_field k v [] = [(k, v)]"
| "set_field k v ((k', v') # q) =
     (if k' = k then (k, v) # q else (k', v') # set_field k v q)"

record LaserScan =
  stamp :: int  \<comment> \<open>header.stamp, in nanoseconds\<close>
  angle_min :: real
  angle_max :: real
  angle_increment :: real
  scan_time :: real
  ranges :: "real list"
  intensities :: "real list"

record Odometry =
  odom_stamp :: int
  odom_position :: "real \<times> real \<times> real"

record Quaternion =
  qx :: real
  qy :: real
  qz :: real
  qw :: real

record Header =
  hdr_stamp :: int
  frame_id :: string

record Pose =
  position_x :: real
  position_y :: real
  position_z :: real
  orientation :: Quaternion

record PoseStamped =
  ps_header :: Header
  ps_pose :: Pose

record PoseWithCovarianceStamped =
  header :: Header
  pose :: Pose
  covariance :: "real list"  \<comment> \<open>\<open>std::array<double, 36>\<close>, row-major 6x6\<close>

datatype channel = Laser | Laser2 | Odom

datatype payload = ScanPayload LaserScan | OdomPayload Odometry

datatype log_msg =
    WrongFrame string string
  | InvalidScanAngles
  | InvalidScanIntensities string

text \<open>
  What a callback does to the outside world, in the order it does it: a logged error, a
  call of the session client (\<open>getSessionQuery\<close>, \<open>call\<close>, \<open>setConfigList\<close>), and a
  datagram handed to a sending interface. \<open>Datagram c n p\<close> is the datagram that the
  converter builds from the reading \<open>p\<close> and the sequence number \<open>n\<close>, sent on channel
  \<open>c\<close>.
\<close>

datatype effect =
    LogError log_msg
  | SessionQuery
  | Call string query
  | SetConfigList query
  | Datagram channel nat payload

text \<open>
  Modelled from the spec: the members of \<open>LocatorBridgeNode\<close> are declared in
  locator_bridge_node.hpp, which is not among these files. The three sequence counters
  start at 0 (the first emitted value is 1) and count without bound; the two previous
  time stamps start at 0; the two remembered names start empty. The record holds the
  members that the callbacks read and write, the session token, and the trace of
  effects so far.
\<close>

record bridge =
  session_id :: string
  last_recording_name :: string
  last_map_name :: string
  scan_num :: nat
  scan2_num :: nat
  odom_num :: nat
  prev_laser_timestamp :: int
  prev_laser2_timestamp :: int
  trace :: "effect list"

definition init :: "string \<Rightarrow> bridge" where
  "init sid = \<lparr>session_id = sid, last_recording_name = [], last_map_name = [],
     scan_num = 0, scan2_num = 0, odom_num = 0,
     prev_laser_timestamp = 0, prev_laser2_timestamp = 0, trace = []\<rparr>"

definition emit :: "effect \<Rightarrow> bridge \<Rightarrow> bridge" where
  "emit e st = st\<lparr>trace := trace st @ [e]\<rparr>"

text \<open>
  Modelled from the spec: \<open>getSessionQuery\<close> of the session client returns an empty
  query pre-populated with the current auth token.
\<close>

definition getSessionQuery :: "bridge \<Rightarrow> query \<times> bridge" where
  "getSessionQuery st = ([(''sessionId'', DString (session_id st))], emit SessionQuery st)"

text \<open>Modelled from the spec: the fixed map reference frame is "map".\<close>

definition MAP_FRAME_ID :: string where
  "MAP_FRAME_ID = ''map''"

subsection \<open>Service callbacks\<close>

text \<open>
  \<open>loc_client_interface_->call(method, query)\<close>. The response of the appliance is
  not modelled: only \<open>clientMapList\<close> reads it, to fill its reply.
\<close>

definition call :: "string \<Rightarrow> query \<Rightarrow> bridge \<Rightarrow> bridge" where
  "call method q st = emit (Call method q) st"

definition clientMapSendCb :: "string \<Rightarrow> bridge \<Rightarrow> bridge" where
  "clientMapSendCb req_name st =
     (let client_map_name = (if req_name = [] then last_map_name st else req_name);
          (q, st1) = getSessionQuery st;
          q1 = set_field ''clientMapName'' (DString client_map_name) q
      in call ''clientMapSend'' q1 st1)"

definition clientMapSetCb :: "string \<Rightarrow> bridge \<Rightarrow> bridge" where
  "clientMapSetCb req_name st =
     (let active_map_name = (if req_name = [] then last_map_name st else req_name);
          config = [(''ClientLocalization.activeMapName'', DString active_map_name)]
      in emit (SetConfigList config) st)"

definition clientMapList :: "bridge \<Rightarrow> bridge" where
  "clientMapList st = (let (q, st1) = getSessionQuery st in call ''clientMapList'' q st1)"

definition clientLocalizationStartCb :: "bridge \<Rightarrow> bridge" where
  "clientLocalizationStartCb st =
     (let (q, st1) = getSessionQuery st in call ''clientLocalizationStart'' q st1)"

definition clientLocalizationStopCb :: "bridge \<Rightarrow> bridge" where
  "clientLocalizationStopCb st =
     (let (q, st1) = getSessionQuery st in call ''clientLocalizationStop'' q st1)"

text \<open>
  \<open>setSeedCallback\<close>. The yaw angle comes from tf2's \<open>getRPY\<close> on the orientation of
  the pose; that library function is the parameter \<open>getYaw\<close>.
\<close>

definition setSeedCallback ::
  "(Quaternion \<Rightarrow> real) \<Rightarrow> PoseWithCovarianceStamped \<Rightarrow> bridge \<Rightarrow> bridge" where
  "setSeedCallback getYaw msg st =
     (if frame_id (header msg) \<noteq> MAP_FRAME_ID
      then emit (LogError (WrongFrame (frame_id (header msg)) MAP_FRAME_ID)) st
      else
        let (q, st1) = getSessionQuery st;
            pose_x = position_x (pose msg);
            pose_y = position_y (pose msg);
            pose_theta = getYaw (orientation (pose msg));
            q1 = set_field ''enforceSeed'' (DBool True) q;
            q2 = set_field ''seedPose'' (DPose2d pose_x pose_y pose_theta) q1
        in call ''clientLocalizationSetSeed'' q2 st1)"

definition clientRecordingStartVisualRecordingCb :: "string \<Rightarrow> bridge \<Rightarrow> bridge" where
  "clientRecordingStartVisualRecordingCb req_name st =
     (let (q, st1) = getSessionQuery st;
          q1 = set_field ''recordingName'' (DString req_name) q;
          st2 = st1\<lparr>last_recording_name := req_name\<rparr>
      in call ''clientRecordingStartVisualRecording'' q1 st2)"

definition clientRecordingStopVisualRecordingCb :: "bridge \<Rightarrow> bridge" where
  "clientRecordingStopVisualRecordingCb st =
     (let (q, st1) = getSessionQuery st
      in call ''clientRecordingStopVisualRecording'' q st1)"

record ClientMapStart_Request =
  recording_name :: string
  client_map_name :: string

definition clientMapStartCb :: "ClientMapStart_Request \<Rightarrow> bridge \<Rightarrow> bridge" where
  "clientMapStartCb req st =
     (let recording_name =
            (if recording_name req = [] then last_recording_name st else recording_name req);
          client_map_name =
            (if client_map_name req = [] then ''map-from-'' @ recording_name
             else client_map_name req);
          (q, st1) = getSessionQuery st;
          q1 = set_field ''recordingName'' (DString recording_name) q;
          q2 = set_field ''clientMapName'' (DString client_map_name) q1;
          st2 = st1\<lparr>last_map_name := client_map_name\<rparr>
      in call ''clientMapStart'' q2 st2)"

definition clientMapStopCb :: "bridge \<Rightarrow> bridge" where
  "clientMapStopCb st = (let (q, st1) = getSessionQuery st in call ''clientMapStop'' q st1)"

subsection \<open>Sensor callbacks\<close>

text \<open>
  \<open>ranges.size() - 1\<close> is computed in \<open>size_t\<close> (64 bits): for an empty array it
  wraps around to \<open>2^64 - 1\<close>.
\<close>

definition size_minus_1 :: "nat \<Rightarrow> nat" where
  "size_minus_1 n = (n mod 2 ^ 64 + 2 ^ 64 - 1) mod 2 ^ 64"

text \<open>
  \<open>checkLaserScan\<close>. The parameter \<open>cfg\<close> is what \<open>get_config_entry\<close> (not in this
  file) gives for the key it is asked: \<open>None\<close> when it returns false, the value otherwise.
  The source computes the two sides of the comparison in floating point; here they are
  computed exactly, over the reals, so the rounding of the source is not modelled.
\<close>

definition checkLaserScan ::
  "LaserScan \<Rightarrow> string \<Rightarrow> (string \<Rightarrow> string option) \<Rightarrow> bridge \<Rightarrow> bridge" where
  "checkLaserScan msg laser cfg st =
     (if \<bar>angle_min msg + real (size_minus_1 (length (ranges msg))) * angle_increment msg
           - angle_max msg\<bar>
         > \<bar>0.5 * angle_increment msg\<bar>
      then emit (LogError InvalidScanAngles) st
      else
        let param_name = ''ClientSensor.'' @ laser @ ''.useIntensities''
        in if cfg param_name = Some ''true''
              \<and> length (ranges msg) \<noteq> length (intensities msg)
           then emit (LogError (InvalidScanIntensities param_name)) st
           else st)"

text \<open>\<open>Duration::seconds()\<close> of a difference of two time stamps.\<close>

definition seconds :: "int \<Rightarrow> real" where
  "seconds ns = real_of_int ns / 10 ^ 9"

text \<open>
  \<open>laser_callback\<close>. \<open>io_exception\<close> tells whether \<open>sendData\<close> returns
  \<open>IO_EXCEPTION\<close> for this datagram.
\<close>

definition laser_callback ::
  "LaserScan \<Rightarrow> bool \<Rightarrow> (string \<Rightarrow> string option) \<Rightarrow> bridge \<Rightarrow> bridge" where
  "laser_callback msg io_exception cfg st =
     (let (msg1, st1) =
            (if scan_time msg = 0
             then
               let laser_timestamp = stamp msg;
                   m = (if prev_laser_timestamp st \<noteq> 0
                        then msg\<lparr>scan_time :=
                               seconds (laser_timestamp - prev_laser_timestamp st)\<rparr>
                        else msg)
               in (m, st\<lparr>prev_laser_timestamp := laser_timestamp\<rparr>)
             else (msg, st));
          st2 = st1\<lparr>scan_num := Suc (scan_num st1)\<rparr>;
          st3 = emit (Datagram Laser (scan_num st2) (ScanPayload msg1)) st2
      in if io_exception then checkLaserScan msg1 ''laser'' cfg st3 else st3)"

definition laser2_callback ::
  "LaserScan \<Rightarrow> bool \<Rightarrow> (string \<Rightarrow> string option) \<Rightarrow> bridge \<Rightarrow> bridge" where
  "laser2_callback msg io_exception cfg st =
     (let (msg1, st1) =
            (if scan_time msg = 0
             then
               let laser_timestamp = stamp msg;
                   m = (if prev_laser2_timestamp st \<noteq> 0
                        then msg\<lparr>scan_time :=
                               seconds (laser_timestamp - prev_laser2_timestamp st)\<rparr>
                        else msg)
               in (m, st\<lparr>prev_laser2_timestamp := laser_timestamp\<rparr>)
             else (msg, st));
          st2 = st1\<lparr>scan2_num := Suc (scan2_num st1)\<rparr>;
          st3 = emit (Datagram Laser2 (scan2_num st2) (ScanPayload msg1)) st2
      in if io_exception then checkLaserScan msg1 ''laser2'' cfg st3 else st3)"

definition odom_callback :: "Odometry \<Rightarrow> bridge \<Rightarrow> bridge" where
  "odom_callback msg st =
     (let st1 = st\<lparr>odom_num := Suc (odom_num st)\<rparr>
      in emit (Datagram Odom (odom_num st1) (OdomPayload msg)) st1)"

subsection \<open>Runs of the node\<close>

text \<open>
  Everything that can reach the node after \<open>init\<close>: the service requests, the seed
  pose and the sensor readings. A run handles them one after the other (the services
  share one mutually exclusive callback group).
\<close>

datatype request =
    MapSend string
  | MapSet string
  | MapList
  | LocalizationStart
  | LocalizationStop
  | SetSeed PoseWithCovarianceStamped
  | RecordingStart string
  | RecordingStop
  | MapStart ClientMapStart_Request
  | MapStop
  | LaserReading LaserScan bool
  | Laser2Reading LaserScan bool
  | OdomReading Odometry

fun handle ::
  "(Quaternion \<Rightarrow> real) \<Rightarrow> (string \<Rightarrow> string option) \<Rightarrow> bridge \<Rightarrow> request \<Rightarrow> bridge" where
  "handle getYaw cfg st (MapSend n) = clientMapSendCb n st"
| "handle getYaw cfg st (MapSet n) = clientMapSetCb n st"
| "handle getYaw cfg st MapList = clientMapList st"
| "handle getYaw cfg st LocalizationStart = clientLocalizationStartCb st"
| "handle getYaw cfg st LocalizationStop = clientLocalizationStopCb st"
| "handle getYaw cfg st (SetSeed msg) = setSeedCallback getYaw msg st"
| "handle getYaw cfg st (RecordingStart n) = clientRecordingStartVisualRecordingCb n st"
| "handle getYaw cfg st RecordingStop = clientRecordingStopVisualRecordingCb st"
| "handle getYaw cfg st (MapStart req) = clientMapStartCb req st"
| "handle getYaw cfg st MapStop = clientMapStopCb st"
| "handle getYaw cfg st (LaserReading msg io) = laser_callback msg io cfg st"
| "handle getYaw cfg st (Laser2Reading msg io) = laser2_callback msg io cfg st"
| "handle getYaw cfg st (OdomReading msg) = odom_callback msg st"

definition run ::
  "(Quaternion \<Rightarrow> real) \<Rightarrow> (string \<Rightarrow> string option) \<Rightarrow> bridge \<Rightarrow> request list \<Rightarrow> bridge" where
  "run getYaw cfg st reqs = foldl (handle getYaw cfg) st reqs"

subsection \<open>What a run has been asked and what it has sent\<close>

text \<open>The names of the start-visual-recording requests of a run, oldest first.\<close>

fun recording_names :: "request list \<Rightarrow> string list" where
  "recording_names [] = []"
| "recording_names (RecordingStart n # rs) = n # recording_names rs"
| "recording_names (r # rs) = recording_names rs"

text \<open>
  The client map names that the \<open>clientMapStart\<close> calls in a trace carry, oldest first:
  the names that the map-start requests resolved to.
\<close>

fun sent_map_names :: "effect list \<Rightarrow> string list" where
  "sent_map_names [] = []"
| "sent_map_names (Call method q # es) =
     (if method = ''clientMapStart''
      then (case map_of q ''clientMapName'' of
              Some (DString n) \<Rightarrow> n # sent_map_names es
            | _ \<Rightarrow> sent_map_names es)
      else sent_map_names es)"
| "sent_map_names (e # es) = sent_map_names es"

text \<open>The most recent name of a list of names, the empty string when there is none.\<close>

definition most_recent :: "string list \<Rightarrow> string" where
  "most_recent ns = (if ns = [] then [] else last ns)"

subsection \<open>Readings and datagrams of a run\<close>

text \<open>The outbound channel that a request is a reading of, if it is one.\<close>

fun on_channel :: "request \<Rightarrow> channel option" where
  "on_channel (LaserReading msg io) = Some Laser"
| "on_channel (Laser2Reading msg io) = Some Laser2"
| "on_channel (OdomReading msg) = Some Odom"
| "on_channel r = None"

text \<open>The sequence counter of a channel.\<close>

fun counter :: "channel \<Rightarrow> bridge \<Rightarrow> nat" where
  "counter Laser st = scan_num st"
| "counter Laser2 st = scan2_num st"
| "counter Odom st = odom_num st"

text \<open>The sequence numbers of the datagrams of a channel in a trace, oldest first.\<close>

fun seq_numbers :: "channel \<Rightarrow> effect list \<Rightarrow> nat list" where
  "seq_numbers c [] = []"
| "seq_numbers c (Datagram c' n p # es) =
     (if c' = c then n # seq_numbers c es else seq_numbers c es)"
| "seq_numbers c (e # es) = seq_numbers c es"

text \<open>The laser scans that a run receives on a channel, oldest first.\<close>

fun scans_on :: "channel \<Rightarrow> request list \<Rightarrow> LaserScan list" where
  "scans_on c [] = []"
| "scans_on c (LaserReading msg io # rs) =
     (if c = Laser then msg # scans_on c rs else scans_on c rs)"
| "scans_on c (Laser2Reading msg io # rs) =
     (if c = Laser2 then msg # scans_on c rs else scans_on c rs)"
| "scans_on c (r # rs) = scans_on c rs"

text \<open>The laser scans that the datagrams of a channel in a trace encode, oldest first.\<close>

fun sent_scans :: "channel \<Rightarrow> effect list \<Rightarrow> LaserScan list" where
  "sent_scans c [] = []"
| "sent_scans c (Datagram c' n (ScanPayload msg) # es) =
     (if c' = c then msg # sent_scans c es else sent_scans c es)"
| "sent_scans c (e # es) = sent_scans c es"

text \<open>
  The time stamp of the most recent scan of a list whose scan time is unset, and 0 when
  the list has no such scan.
\<close>

definition last_unset_stamp :: "LaserScan list \<Rightarrow> int" where
  "last_unset_stamp scans =
     (let unset = filter (\<lambda>m. scan_time m = 0) scans
      in if unset = [] then 0 else stamp (last unset))"

text \<open>
  The scans that a channel would encode if, as the specification words it, the first
  reading with an unset scan time kept it unset and every later such reading got the
  time elapsed since the previous reading of the channel. \<open>seen\<close> tells whether a
  reading with an unset scan time came before, \<open>prev\<close> is the time stamp of the
  previous reading.
\<close>

fun scans_as_specified :: "bool \<Rightarrow> int \<Rightarrow> LaserScan list \<Rightarrow> LaserScan list" where
  "scans_as_specified seen prev [] = []"
| "scans_as_specified seen prev (m # ms) =
     (if scan_time m = 0 \<and> seen then m\<lparr>scan_time := seconds (stamp m - prev)\<rparr> else m)
     # scans_as_specified (seen \<or> scan_time m = 0) (stamp m) ms"

section \<open>The receiving interfaces (receiving_interface.cpp)\<close>

subsection \<open>The read-event handler\<close>

type_synonym byte = "8 word"

text \<open>
  The two kinds of exception that \<open>onReadEvent\<close> tells apart: the
  \<open>std::ios_base::failure\<close> that the binary reader raises when the bytes run out, and
  anything else.
\<close>

datatype exn = IosFailure | OtherException

text \<open>
  One call of a decoding step on the bytes that have arrived and are not yet read. Every
  outcome carries the bytes that the binary reader has left unread when the call ends:
  \<open>Parsed r rest\<close> returns \<open>r\<close>, \<open>Incomplete rest\<close> is the
  \<open>std::ios_base::failure\<close>, \<open>Failed rest\<close> is any other exception.
\<close>

datatype 'a outcome = Parsed 'a "byte list" | Incomplete "byte list" | Failed "byte list"

datatype rx_log = PeerClosedNotice | CaughtException

text \<open>
  A receiving interface with messages of type \<open>'m\<close>: the bytes that have arrived on
  the socket and that the binary reader has not read (\<open>ccm_socket_.available()\<close> is
  their number), the messages published so far, what was printed and logged, and
  whether the reactor runs and the socket is open.
\<close>

record 'm rx_state =
  buffer :: "byte list"
  published :: "'m list"
  rx_log :: "rx_log list"
  reactor_running :: bool
  socket_open :: bool

definition rx_init :: "'m rx_state" where
  "rx_init = \<lparr>buffer = [], published = [], rx_log = [],
     reactor_running = True, socket_open = True\<rparr>"

text \<open>The destructor: \<open>reactor_.stop(); ccm_socket_.shutdown();\<close>\<close>

definition destroy :: "'m rx_state \<Rightarrow> 'm rx_state" where
  "destroy st = st\<lparr>reactor_running := False, socket_open := False\<rparr>"

text \<open>
  \<open>while (ccm_socket_.available()) tryToParseData(binary_reader_);\<close> The virtual
  \<open>tryToParseData\<close> of the channel, with the binary reader it reads from, is the
  parameter \<open>parse\<close>; the messages it publishes are appended to the published ones.
  The loop ends when no byte is left, or with the exception that a call raises; the
  loop itself restores nothing, so the unread bytes are then the ones that the call
  has left. It need not end: a \<open>parse\<close> that returns without reading a byte is called
  again and again.
\<close>

partial_function (option) read_loop ::
  "(byte list \<Rightarrow> 'm list outcome) \<Rightarrow> byte list \<Rightarrow> 'm list
     \<Rightarrow> (byte list \<times> 'm list \<times> exn option) option" where
  "read_loop parse buf pub =
     (if buf = [] then Some (buf, pub, None)
      else case parse buf of
             Parsed ms rest \<Rightarrow> read_loop parse rest (pub @ ms)
           | Incomplete rest \<Rightarrow> Some (rest, pub, Some IosFailure)
           | Failed rest \<Rightarrow> Some (rest, pub, Some OtherException))"

text \<open>
  \<open>onReadEvent\<close>, for a readiness event at which the bytes \<open>chunk\<close> have arrived. The
  result is \<open>None\<close> when the handler does not return, \<open>Some (Inl e)\<close> when it lets
  the exception \<open>e\<close> escape, \<open>Some (Inr st')\<close> when it returns normally.
\<close>

definition onReadEvent ::
  "(byte list \<Rightarrow> 'm list outcome) \<Rightarrow> byte list \<Rightarrow> 'm rx_state
     \<Rightarrow> (exn + 'm rx_state) option" where
  "onReadEvent parse chunk st =
     (let st0 = st\<lparr>buffer := buffer st @ chunk\<rparr>;
          st1 = (if buffer st0 = [] then st0\<lparr>rx_log := rx_log st0 @ [PeerClosedNotice]\<rparr>
                 else st0)
      in case read_loop parse (buffer st1) (published st1) of
           None \<Rightarrow> None
         | Some (buf, pub, None) \<Rightarrow> Some (Inr (st1\<lparr>buffer := buf, published := pub\<rparr>))
         | Some (buf, pub, Some IosFailure) \<Rightarrow>
             Some (Inr (st1\<lparr>buffer := buf, published := pub\<rparr>))
         | Some (buf, pub, Some OtherException) \<Rightarrow>
             Some (Inr (st1\<lparr>buffer := buf, published := pub,
                          rx_log := rx_log st1 @ [CaughtException]\<rparr>)))"

text \<open>The reactor delivers one readiness event after the other, while the handler returns.\<close>

fun feed ::
  "(byte list \<Rightarrow> 'm list outcome) \<Rightarrow> byte list list \<Rightarrow> 'm rx_state
     \<Rightarrow> (exn + 'm rx_state) option" where
  "feed parse [] st = Some (Inr st)"
| "feed parse (chunk # chunks) st =
     (case onReadEvent parse chunk st of
        Some (Inr st') \<Rightarrow> feed parse chunks st'
      | r \<Rightarrow> r)"

text \<open>A decoding step makes progress when every success reads at least one byte.\<close>

definition consumes :: "(byte list \<Rightarrow> 'm list outcome) \<Rightarrow> bool" where
  "consumes parse = (\<forall>buf ms rest. parse buf = Parsed ms rest \<longrightarrow> length rest < length buf)"

subsection \<open>The binary reader\<close>

text \<open>
  A fixed-width read of \<open>Poco::BinaryReader\<close> is \<open>std::istream::read\<close> on the
  stream of the socket, with the exceptions that the constructor of the interface
  switches on: \<open>n\<close> bytes are extracted and returned; when fewer than \<open>n\<close> bytes are
  left, the bytes that are left are extracted and \<open>std::ios_base::failure\<close> is raised
  (\<open>None\<close>). Extracted bytes are not put back.
\<close>

definition read_n :: "nat \<Rightarrow> byte list \<Rightarrow> (byte list \<times> byte list) option" where
  "read_n n buf = (if length buf < n then None else Some (take n buf, drop n buf))"

subsection \<open>The localization pose channel\<close>

text \<open>\<open>double covariance[6]\<close>\<close>

type_synonym covariance6 = "real \<times> real \<times> real \<times> real \<times> real \<times> real"

datatype 'r pose_channel_msg =
    Transform PoseStamped string string
  | LocalizationPose 'r
  | PoseWithCov PoseWithCovarianceStamped
  | LidarOdoPose PoseStamped

text \<open>
  The message \<open>poseWithCov\<close> that \<open>ClientLocalizationPoseInterface::tryToParseData\<close>
  fills. A freshly constructed message has an all-zero covariance array.
\<close>

definition poseWithCov :: "PoseStamped \<Rightarrow> covariance6 \<Rightarrow> PoseWithCovarianceStamped" where
  "poseWithCov p cov6 =
     (case cov6 of (c0, c1, c2, c3, c4, c5) \<Rightarrow>
        \<lparr>header = ps_header p, pose = ps_pose p,
         covariance = (replicate 36 0)[0 := c0, 1 := c1, 5 := c2, 7 := c3, 11 := c4, 35 := c5]\<rparr>)"

text \<open>
  \<open>ClientLocalizationPoseInterface::tryToParseData\<close>. The converter
  \<open>convertClientLocalizationPoseDatagram2Message\<close> (not in this file) is the parameter
  \<open>convert\<close>: from the buffered bytes it gives the appliance's pose message of type
  \<open>'r\<close>, the pose, the six covariance values and the lidar odometry pose. The sensor
  frame of the broadcast transform is the parameter \<open>laser_frame_id\<close>.
\<close>

definition ClientLocalizationPose_tryToParseData ::
  "(byte list \<Rightarrow> ('r \<times> PoseStamped \<times> covariance6 \<times> PoseStamped) outcome) \<Rightarrow> string
     \<Rightarrow> byte list \<Rightarrow> 'r pose_channel_msg list outcome" where
  "ClientLocalizationPose_tryToParseData convert laser_frame_id buf =
     (case convert buf of
        Parsed (client_localization_pose, p, cov6, lidar_odo_pose) rest \<Rightarrow>
          Parsed [Transform p MAP_FRAME_ID laser_frame_id,
                  LocalizationPose client_localization_pose,
                  PoseWithCov (poseWithCov p cov6),
                  LidarOdoPose lidar_odo_pose] rest
      | Incomplete rest \<Rightarrow> Incomplete rest
      | Failed rest \<Rightarrow> Failed rest)"

section \<open>Example inputs\<close>

text \<open>
  The appliance reports every required module, \<open>Session\<close> with a higher minor version,
  and the unregistered module \<open>Diagnostic\<close>: the check passes, with and without the
  extra module.
\<close>

definition reported_modules :: "string \<rightharpoonup> version" where
  "reported_modules =
     map_of [(''AboutModules'', (5, 0)), (''Session'', (3, 4)), (''Licensing'', (6, 1)),
       (''Config'', (5, 0)), (''AboutBuild'', (3, 0)), (''Certificate'', (3, 0)),
       (''System'', (3, 1)), (''ClientControl'', (3, 1)), (''ClientRecording'', (4, 0)),
       (''ClientMap'', (4, 0)), (''ClientLocalization'', (6, 0)),
       (''ClientGlobalAlign'', (4, 0)), (''ClientSensor'', (5, 1))]"

text \<open>
  A decoded localization pose datagram with the covariance values 1 to 6; the message
  of the appliance is left out (\<open>unit\<close>).
\<close>

definition ex_pose :: PoseStamped where
  "ex_pose = \<lparr>ps_header = \<lparr>hdr_stamp = 1000, frame_id = ''map''\<rparr>,
     ps_pose = \<lparr>position_x = 1, position_y = 2, position_z = 0,
       orientation = \<lparr>qx = 0, qy = 0, qz = 0, qw = 1\<rparr>\<rparr>\<rparr>"

definition ex_convert ::
  "byte list \<Rightarrow> (unit \<times> PoseStamped \<times> covariance6 \<times> PoseStamped) outcome" where
  "ex_convert buf = Parsed ((), ex_pose, (1, 2, 3, 4, 5, 6), ex_pose) []"

text \<open>A seed pose at (1, 2) in a given frame, and a stand-in for the yaw computation.\<close>

definition seed_in :: "string \<Rightarrow> PoseWithCovarianceStamped" where
  "seed_in frame = \<lparr>header = \<lparr>hdr_stamp = 0, frame_id = frame\<rparr>,
     pose = \<lparr>position_x = 1, position_y = 2, position_z = 0,
       orientation = \<lparr>qx = 0, qy = 0, qz = 0, qw = 1\<rparr>\<rparr>,
     covariance = replicate 36 0\<rparr>"

definition zero_yaw :: "Quaternion \<Rightarrow> real" where
  "zero_yaw q = 0"

text \<open>A laser scan with a given time stamp (in seconds) and scan time, and one range.\<close>

definition scan_at :: "int \<Rightarrow> real \<Rightarrow> LaserScan" where
  "scan_at secs t = \<lparr>stamp = secs * 10 ^ 9, angle_min = 0, angle_max = 0,
     angle_increment = 1, scan_time = t, ranges = [1], intensities = []\<rparr>"

text \<open>An empty laser scan, and a scan of 101 ranges from angle 0 in steps of 0.01.\<close>

definition empty_scan :: LaserScan where
  "empty_scan = \<lparr>stamp = 0, angle_min = 0, angle_max = - 0.5,
     angle_increment = 0.5, scan_time = 0, ranges = [], intensities = []\<rparr>"

definition scan_101 :: "real \<Rightarrow> LaserScan" where
  "scan_101 a_max = \<lparr>stamp = 0, angle_min = 0, angle_max = a_max,
     angle_increment = 0.01, scan_time = 0, ranges = replicate 101 1, intensities = []\<rparr>"

definition an_odometry :: Odometry where
  "an_odometry = \<lparr>odom_stamp = 0, odom_position = (0, 0, 0)\<rparr>"

text \<open>
  A decoding step for records of one length byte followed by that many payload bytes,
  read with the binary reader: first the length byte, then the payload, which is the
  message. When a read fails, the reader has extracted every byte that had arrived.
  \<open>checked_parse\<close> refuses the length byte 255 with an error, after reading it.
\<close>

definition lp_parse :: "byte list \<Rightarrow> byte list list outcome" where
  "lp_parse buf =
     (case read_n 1 buf of
        None \<Rightarrow> Incomplete []
      | Some (len, rest) \<Rightarrow>
          (case read_n (unat (hd len)) rest of
             None \<Rightarrow> Incomplete []
           | Some (payload, rest') \<Rightarrow> Parsed [payload] rest'))"

fun checked_parse :: "byte list \<Rightarrow> byte list list outcome" where
  "checked_parse [] = Incomplete []"
| "checked_parse (n # bs) = (if n = 255 then Failed bs else lp_parse (n # bs))"

section \<open>Properties of the bridge node\<close>

subsection \<open>Module version gate\<close>

lemma check_versions_loop_iff:
  "check_versions_loop reqs mv = list_all (module_ok mv) reqs"
proof (induction reqs)
  case Nil
  show ?case by simp
next
  case (Cons r reqs)
  obtain n v where r: "r = (n, v)" by (cases r)
  have head: "module_ok mv (n, v) =
      (case mv n of None \<Rightarrow> False
       | Some actual \<Rightarrow> fst actual = fst v \<and> snd actual \<ge> snd v)"
    by (simp add: module_ok_def split: option.splits)
  show ?case
    by (cases "mv n") (auto simp add: r head Cons.IH)
qed

lemma module_ok_unregistered:
  "n \<noteq> fst req \<Longrightarrow> module_ok (mv(n := x)) req = module_ok mv req"
  by (simp add: module_ok_def)

lemma module_ok_iff:
  "module_ok mv (name, major, minor) =
     (\<exists>actual_major actual_minor. mv name = Some (actual_major, actual_minor)
        \<and> actual_major = major \<and> actual_minor \<ge> minor)"
  by (cases "mv name") (auto simp: module_ok_def)

text \<open>
  Claim C2. The version check returns true exactly when every module of the registry
  of required modules is reported, with the required major version and with a minor
  version that is at least the required one; so it returns false as soon as one required
  module is missing, has another major version or has a lower minor version. A module
  that the appliance reports and the registry does not list has no effect on the result.
\<close>

theorem check_module_versions_spec:
  "(check_module_versions mv \<longleftrightarrow>
      (\<forall>(name, major, minor) \<in> set REQUIRED_MODULE_VERSIONS.
         \<exists>actual_major actual_minor. mv name = Some (actual_major, actual_minor)
            \<and> actual_major = major \<and> actual_minor \<ge> minor))
   \<and> (extra \<notin> fst ` set REQUIRED_MODULE_VERSIONS \<longrightarrow>
        check_module_versions (mv(extra := reported)) = check_module_versions mv)"
proof
  show "check_module_versions mv \<longleftrightarrow>
      (\<forall>(name, major, minor) \<in> set REQUIRED_MODULE_VERSIONS.
         \<exists>actual_major actual_minor. mv name = Some (actual_major, actual_minor)
            \<and> actual_major = major \<and> actual_minor \<ge> minor)"
    unfolding check_module_versions_def check_versions_loop_iff list_all_iff
    by (auto simp: module_ok_iff)
next
  show "extra \<notin> fst ` set REQUIRED_MODULE_VERSIONS \<longrightarrow>
        check_module_versions (mv(extra := reported)) = check_module_versions mv"
  proof
    assume notin: "extra \<notin> fst ` set REQUIRED_MODULE_VERSIONS"
    have "\<forall>req \<in> set REQUIRED_MODULE_VERSIONS.
            module_ok (mv(extra := reported)) req = module_ok mv req"
      using notin by (auto intro!: module_ok_unregistered)
    then show "check_module_versions (mv(extra := reported)) = check_module_versions mv"
      unfolding check_module_versions_def check_versions_loop_iff list_all_iff by simp
  qed
qed

theorem check_module_versions_spec_witness:
  "check_module_versions reported_modules
   \<and> ''Diagnostic'' \<notin> fst ` set REQUIRED_MODULE_VERSIONS
   \<and> check_module_versions (reported_modules(''Diagnostic'' := Some (4, 0)))
   \<and> \<not> check_module_versions (reported_modules(''Session'' := Some (3, 0)))
   \<and> \<not> check_module_versions (reported_modules(''Session'' := None))"
proof -
  have ok: "check_module_versions reported_modules"
    by (simp add: check_module_versions_def REQUIRED_MODULE_VERSIONS_def reported_modules_def)
  have notin: "''Diagnostic'' \<notin> fst ` set REQUIRED_MODULE_VERSIONS"
    by (simp add: REQUIRED_MODULE_VERSIONS_def)
  have low: "\<not> check_module_versions (reported_modules(''Session'' := Some (3, 0)))"
    by (simp add: check_module_versions_def REQUIRED_MODULE_VERSIONS_def reported_modules_def)
  have missing: "\<not> check_module_versions (reported_modules(''Session'' := None))"
    by (simp add: check_module_versions_def REQUIRED_MODULE_VERSIONS_def reported_modules_def)
  from check_module_versions_spec [of reported_modules "''Diagnostic''" "Some (4, 0)"]
  show ?thesis using ok notin low missing by simp
qed

subsection \<open>Runs: what the node remembers\<close>

lemmas callback_defs = clientMapSendCb_def clientMapSetCb_def clientMapList_def
  clientLocalizationStartCb_def clientLocalizationStopCb_def setSeedCallback_def
  clientRecordingStartVisualRecordingCb_def clientRecordingStopVisualRecordingCb_def
  clientMapStartCb_def clientMapStopCb_def laser_callback_def laser2_callback_def
  odom_callback_def checkLaserScan_def emit_def call_def getSessionQuery_def

lemma recording_names_append:
  "recording_names (hs @ hs') = recording_names hs @ recording_names hs'"
  by (induction hs rule: recording_names.induct) simp_all

lemma sent_map_names_append:
  "sent_map_names (es @ es') = sent_map_names es @ sent_map_names es'"
  by (induction es rule: sent_map_names.induct) (simp_all split: option.splits dyn.splits)

lemma run_Nil: "run getYaw cfg st [] = st"
  by (simp add: run_def)

lemma run_snoc: "run getYaw cfg st (hs @ [r]) = handle getYaw cfg (run getYaw cfg st hs) r"
  by (simp add: run_def)

lemma run_Cons: "run getYaw cfg st (r # hs) = run getYaw cfg (handle getYaw cfg st r) hs"
  by (simp add: run_def)

lemma handle_last_recording_name:
  "last_recording_name (handle getYaw cfg st r) =
     (case r of RecordingStart n \<Rightarrow> n | _ \<Rightarrow> last_recording_name st)"
  by (cases r) (simp_all add: callback_defs Let_def split: prod.splits)

lemma handle_session_id: "session_id (handle getYaw cfg st r) = session_id st"
  by (cases r) (simp_all add: callback_defs Let_def split: prod.splits)

lemma handle_last_map_name:
  "last_map_name st = most_recent (sent_map_names (trace st)) \<Longrightarrow>
   last_map_name (handle getYaw cfg st r) =
     most_recent (sent_map_names (trace (handle getYaw cfg st r)))"
  by (cases r)
     (simp_all add: callback_defs Let_def sent_map_names_append most_recent_def
        split: prod.splits)

lemma run_session_id: "session_id (run getYaw cfg (init sid) hs) = sid"
  by (induction hs rule: rev_induct) (simp_all add: run_Nil run_snoc handle_session_id init_def)

text \<open>
  After any run, the remembered recording name is the name of the most recent
  start-visual-recording request.
\<close>

lemma run_last_recording_name:
  "last_recording_name (run getYaw cfg (init sid) hs) = most_recent (recording_names hs)"
proof (induction hs rule: rev_induct)
  case Nil
  show ?case by (simp add: run_Nil init_def most_recent_def)
next
  case (snoc r hs)
  show ?case
    by (cases r)
       (simp_all add: run_snoc handle_last_recording_name snoc.IH recording_names_append
          most_recent_def del: handle.simps)
qed

text \<open>
  After any run, the remembered map name is the client map name of the most recent
  \<open>clientMapStart\<close> call.
\<close>

lemma run_last_map_name:
  "last_map_name (run getYaw cfg (init sid) hs) =
     most_recent (sent_map_names (trace (run getYaw cfg (init sid) hs)))"
proof (induction hs rule: rev_induct)
  case Nil
  show ?case by (simp add: run_Nil init_def most_recent_def)
next
  case (snoc r hs)
  show ?case unfolding run_snoc by (rule handle_last_map_name) (rule snoc.IH)
qed

subsection \<open>Map start\<close>

text \<open>
  Claim C5. For a map-start request that arrives after any run of the node: an empty
  recording name is replaced by the name of the most recent start-visual-recording
  request of the run, and an empty client map name is replaced by "map-from-" followed
  by the resolved recording name; the request issues one \<open>clientMapStart\<close> call with
  the two resolved names and remembers the resolved map name. In particular, after a
  recording named "rec1", a map-start request with both names empty issues the call with
  the client map name "map-from-rec1".
\<close>

theorem clientMapStartCb_names:
  "(let st = run getYaw cfg (init sid) hs;
        rn = (if recording_name req = [] then most_recent (recording_names hs)
              else recording_name req);
        mn = (if client_map_name req = [] then ''map-from-'' @ rn else client_map_name req)
    in clientMapStartCb req st =
         st\<lparr>last_map_name := mn,
            trace := trace st @
              [SessionQuery,
               Call ''clientMapStart''
                 [(''sessionId'', DString sid), (''recordingName'', DString rn),
                  (''clientMapName'', DString mn)] ]\<rparr>)
   \<and> trace (run getYaw cfg (init sid)
        [RecordingStart ''rec1'', MapStart \<lparr>recording_name = [], client_map_name = []\<rparr>]) =
      [SessionQuery,
       Call ''clientRecordingStartVisualRecording''
         [(''sessionId'', DString sid), (''recordingName'', DString ''rec1'')],
       SessionQuery,
       Call ''clientMapStart''
         [(''sessionId'', DString sid), (''recordingName'', DString ''rec1''),
          (''clientMapName'', DString ''map-from-rec1'')] ]"
proof
  define st where "st = run getYaw cfg (init sid) hs"
  have sid: "session_id st = sid" and rec: "last_recording_name st = most_recent (recording_names hs)"
    unfolding st_def by (rule run_session_id, rule run_last_recording_name)
  show "let st = run getYaw cfg (init sid) hs;
        rn = (if recording_name req = [] then most_recent (recording_names hs)
              else recording_name req);
        mn = (if client_map_name req = [] then ''map-from-'' @ rn else client_map_name req)
    in clientMapStartCb req st =
         st\<lparr>last_map_name := mn,
            trace := trace st @
              [SessionQuery,
               Call ''clientMapStart''
                 [(''sessionId'', DString sid), (''recordingName'', DString rn),
                  (''clientMapName'', DString mn)] ]\<rparr>"
    unfolding st_def [symmetric]
    by (simp add: Let_def clientMapStartCb_def getSessionQuery_def call_def emit_def sid rec)
next
  show "trace (run getYaw cfg (init sid)
        [RecordingStart ''rec1'', MapStart \<lparr>recording_name = [], client_map_name = []\<rparr>]) =
      [SessionQuery,
       Call ''clientRecordingStartVisualRecording''
         [(''sessionId'', DString sid), (''recordingName'', DString ''rec1'')],
       SessionQuery,
       Call ''clientMapStart''
         [(''sessionId'', DString sid), (''recordingName'', DString ''rec1''),
          (''clientMapName'', DString ''map-from-rec1'')] ]"
    by (simp add: run_def init_def clientMapStartCb_def Let_def
          clientRecordingStartVisualRecordingCb_def getSessionQuery_def call_def emit_def)
qed

theorem clientMapStartCb_names_witness:
  "trace (clientMapStartCb \<lparr>recording_name = [], client_map_name = []\<rparr>
            (run zero_yaw Map.empty (init ''token'') [RecordingStart ''rec0'', RecordingStart ''rec1''])) =
     [SessionQuery,
      Call ''clientRecordingStartVisualRecording''
        [(''sessionId'', DString ''token''), (''recordingName'', DString ''rec0'')],
      SessionQuery,
      Call ''clientRecordingStartVisualRecording''
        [(''sessionId'', DString ''token''), (''recordingName'', DString ''rec1'')],
      SessionQuery,
      Call ''clientMapStart''
        [(''sessionId'', DString ''token''), (''recordingName'', DString ''rec1''),
         (''clientMapName'', DString ''map-from-rec1'')] ]
   \<and> last_map_name (clientMapStartCb \<lparr>recording_name = ''rec0'', client_map_name = []\<rparr>
            (run zero_yaw Map.empty (init ''token'') [RecordingStart ''rec0'', RecordingStart ''rec1''])) =
     ''map-from-rec0''"
proof -
  have tr: "trace (run zero_yaw Map.empty (init ''token'')
                [RecordingStart ''rec0'', RecordingStart ''rec1'']) =
     [SessionQuery,
      Call ''clientRecordingStartVisualRecording''
        [(''sessionId'', DString ''token''), (''recordingName'', DString ''rec0'')],
      SessionQuery,
      Call ''clientRecordingStartVisualRecording''
        [(''sessionId'', DString ''token''), (''recordingName'', DString ''rec1'')] ]"
    by (simp add: run_def init_def clientRecordingStartVisualRecordingCb_def
          getSessionQuery_def call_def emit_def)
  from clientMapStartCb_names
    [of zero_yaw Map.empty "''token''" "[RecordingStart ''rec0'', RecordingStart ''rec1'']"
       "\<lparr>recording_name = [], client_map_name = []\<rparr>"]
  have 1: "trace (clientMapStartCb \<lparr>recording_name = [], client_map_name = []\<rparr>
            (run zero_yaw Map.empty (init ''token'')
               [RecordingStart ''rec0'', RecordingStart ''rec1''])) =
     trace (run zero_yaw Map.empty (init ''token'')
               [RecordingStart ''rec0'', RecordingStart ''rec1'']) @
     [SessionQuery,
      Call ''clientMapStart''
        [(''sessionId'', DString ''token''), (''recordingName'', DString ''rec1''),
         (''clientMapName'', DString ''map-from-rec1'')] ]"
    by (simp add: Let_def most_recent_def)
  from clientMapStartCb_names
    [of zero_yaw Map.empty "''token''" "[RecordingStart ''rec0'', RecordingStart ''rec1'']"
       "\<lparr>recording_name = ''rec0'', client_map_name = []\<rparr>"]
  have 2: "last_map_name (clientMapStartCb \<lparr>recording_name = ''rec0'', client_map_name = []\<rparr>
            (run zero_yaw Map.empty (init ''token'')
               [RecordingStart ''rec0'', RecordingStart ''rec1''])) = ''map-from-rec0''"
    by (simp add: Let_def)
  from 1 2 tr show ?thesis by simp
qed

subsection \<open>Send map and set map\<close>

text \<open>
  Claim C10. For a send-map or set-map request that arrives after any run of the node:
  an empty name is replaced by the remembered map name, which is the client map name of
  the most recent \<open>clientMapStart\<close> call of the run (the name that the most recent
  map-start request resolved to), and the empty string when the run has no map start; a
  non-empty name is used as it is. The send-map request issues one \<open>clientMapSend\<close>
  call with that client map name; the set-map request writes that name under
  \<open>ClientLocalization.activeMapName\<close> through the bulk configuration call.
\<close>

theorem clientMapSend_Set_names:
  "(let st = run getYaw cfg (init sid) hs;
        name = (if req_name = [] then most_recent (sent_map_names (trace st)) else req_name)
    in clientMapSendCb req_name st =
         st\<lparr>trace := trace st @
           [SessionQuery,
            Call ''clientMapSend''
              [(''sessionId'', DString sid), (''clientMapName'', DString name)] ]\<rparr>
       \<and> clientMapSetCb req_name st =
         st\<lparr>trace := trace st @
           [SetConfigList [(''ClientLocalization.activeMapName'', DString name)] ]\<rparr>)
   \<and> last_map_name (init sid) = []"
proof
  define st where "st = run getYaw cfg (init sid) hs"
  have sid: "session_id st = sid"
    and name: "last_map_name st = most_recent (sent_map_names (trace st))"
    unfolding st_def by (rule run_session_id, rule run_last_map_name)
  show "let st = run getYaw cfg (init sid) hs;
        name = (if req_name = [] then most_recent (sent_map_names (trace st)) else req_name)
    in clientMapSendCb req_name st =
         st\<lparr>trace := trace st @
           [SessionQuery,
            Call ''clientMapSend''
              [(''sessionId'', DString sid), (''clientMapName'', DString name)] ]\<rparr>
       \<and> clientMapSetCb req_name st =
         st\<lparr>trace := trace st @
           [SetConfigList [(''ClientLocalization.activeMapName'', DString name)] ]\<rparr>"
    unfolding st_def [symmetric]
    by (simp add: Let_def clientMapSendCb_def clientMapSetCb_def getSessionQuery_def
          call_def emit_def sid name)
next
  show "last_map_name (init sid) = []" by (simp add: init_def)
qed

theorem clientMapSend_Set_names_witness:
  "most_recent (sent_map_names (trace (run zero_yaw Map.empty (init ''token'')
      [RecordingStart ''rec1'', MapStart \<lparr>recording_name = [], client_map_name = []\<rparr>])))
     = ''map-from-rec1''
   \<and> last (trace (clientMapSendCb []
        (run zero_yaw Map.empty (init ''token'')
          [RecordingStart ''rec1'', MapStart \<lparr>recording_name = [], client_map_name = []\<rparr>])))
     = Call ''clientMapSend''
         [(''sessionId'', DString ''token''), (''clientMapName'', DString ''map-from-rec1'')]
   \<and> last (trace (clientMapSetCb []
        (run zero_yaw Map.empty (init ''token'')
          [RecordingStart ''rec1'', MapStart \<lparr>recording_name = [], client_map_name = []\<rparr>])))
     = SetConfigList [(''ClientLocalization.activeMapName'', DString ''map-from-rec1'')]
   \<and> last (trace (clientMapSendCb ''hall''
        (run zero_yaw Map.empty (init ''token'')
          [RecordingStart ''rec1'', MapStart \<lparr>recording_name = [], client_map_name = []\<rparr>])))
     = Call ''clientMapSend''
         [(''sessionId'', DString ''token''), (''clientMapName'', DString ''hall'')]
   \<and> last (trace (clientMapSendCb [] (run zero_yaw Map.empty (init ''token'') [])))
     = Call ''clientMapSend''
         [(''sessionId'', DString ''token''), (''clientMapName'', DString [])]"
proof -
  let ?hs = "[RecordingStart ''rec1'', MapStart \<lparr>recording_name = [], client_map_name = []\<rparr>]"
  have tr: "trace (run zero_yaw Map.empty (init ''token'') ?hs) =
      [SessionQuery,
       Call ''clientRecordingStartVisualRecording''
         [(''sessionId'', DString ''token''), (''recordingName'', DString ''rec1'')],
       SessionQuery,
       Call ''clientMapStart''
         [(''sessionId'', DString ''token''), (''recordingName'', DString ''rec1''),
          (''clientMapName'', DString ''map-from-rec1'')] ]"
    by (simp add: run_def init_def clientMapStartCb_def Let_def
          clientRecordingStartVisualRecordingCb_def getSessionQuery_def call_def emit_def)
  have mr: "most_recent (sent_map_names (trace (run zero_yaw Map.empty (init ''token'') ?hs)))
     = ''map-from-rec1''"
    by (simp add: tr most_recent_def)
  have tr0: "trace (run zero_yaw Map.empty (init ''token'') []) = []"
    by (simp add: run_def init_def)
  from clientMapSend_Set_names [of zero_yaw Map.empty "''token''" ?hs "[]"]
  have 1: "last (trace (clientMapSendCb [] (run zero_yaw Map.empty (init ''token'') ?hs)))
     = Call ''clientMapSend''
         [(''sessionId'', DString ''token''), (''clientMapName'', DString ''map-from-rec1'')]"
    and 2: "last (trace (clientMapSetCb [] (run zero_yaw Map.empty (init ''token'') ?hs)))
     = SetConfigList [(''ClientLocalization.activeMapName'', DString ''map-from-rec1'')]"
    by (simp_all add: Let_def mr)
  from clientMapSend_Set_names [of zero_yaw Map.empty "''token''" ?hs "''hall''"]
  have 3: "last (trace (clientMapSendCb ''hall'' (run zero_yaw Map.empty (init ''token'') ?hs)))
     = Call ''clientMapSend''
         [(''sessionId'', DString ''token''), (''clientMapName'', DString ''hall'')]"
    by (simp add: Let_def)
  from clientMapSend_Set_names [of zero_yaw Map.empty "''token''" "[]" "[]"]
  have 4: "last (trace (clientMapSendCb [] (run zero_yaw Map.empty (init ''token'') [])))
     = Call ''clientMapSend''
         [(''sessionId'', DString ''token''), (''clientMapName'', DString [])]"
    by (simp add: Let_def tr0 most_recent_def)
  from mr 1 2 3 4 show ?thesis by blast
qed

subsection \<open>Sequence counters\<close>

lemma seq_numbers_append:
  "seq_numbers c (es @ es') = seq_numbers c es @ seq_numbers c es'"
  by (induction c es rule: seq_numbers.induct) simp_all

lemma sent_scans_append:
  "sent_scans c (es @ es') = sent_scans c es @ sent_scans c es'"
  by (induction c es rule: sent_scans.induct) simp_all

lemma scans_on_append:
  "scans_on c (rs @ rs') = scans_on c rs @ scans_on c rs'"
  by (induction c rs rule: scans_on.induct) simp_all

lemma handle_counter:
  "counter c (handle getYaw cfg st r) =
     (if on_channel r = Some c then Suc (counter c st) else counter c st)"
  by (cases r; cases c)
     (simp_all add: callback_defs Let_def split: prod.splits)

lemma handle_seq_numbers:
  "seq_numbers c (trace (handle getYaw cfg st r)) =
     seq_numbers c (trace st) @ (if on_channel r = Some c then [Suc (counter c st)] else [])"
  by (cases r; cases c)
     (simp_all add: callback_defs Let_def seq_numbers_append split: prod.splits)

lemma run_counter:
  "counter c (run getYaw cfg st hs) =
     counter c st + length (filter (\<lambda>r. on_channel r = Some c) hs)"
  by (induction hs rule: rev_induct) (simp_all add: run_Nil run_snoc handle_counter)

lemma run_seq_numbers:
  "seq_numbers c (trace (run getYaw cfg st hs)) =
     seq_numbers c (trace st) @
     [Suc (counter c st) ..<
        Suc (counter c st + length (filter (\<lambda>r. on_channel r = Some c) hs))]"
  by (induction hs rule: rev_induct)
     (simp_all add: run_Nil run_snoc handle_seq_numbers run_counter)

text \<open>
  Claim C7. Each outbound channel has its own sequence counter. Handling one request
  increments the counter of a channel exactly when the request is a reading of that
  channel, by one, and leaves it unchanged otherwise; the datagram of the reading
  carries the incremented value. Over a run, the counter of a channel grows by the number
  of readings of that channel and never decreases; from the initial state, the
  datagrams of a channel carry the sequence numbers 1, 2, 3, ... in this order, so the
  first one carries 1 and the numbers increase strictly.
\<close>

theorem sequence_counters:
  "counter c (handle getYaw cfg st r) =
     (if on_channel r = Some c then Suc (counter c st) else counter c st)
   \<and> seq_numbers c (trace (handle getYaw cfg st r)) =
       seq_numbers c (trace st) @ (if on_channel r = Some c then [Suc (counter c st)] else [])
   \<and> counter c (run getYaw cfg st hs) =
       counter c st + length (filter (\<lambda>r. on_channel r = Some c) hs)
   \<and> counter c st \<le> counter c (run getYaw cfg st hs)
   \<and> seq_numbers c (trace (run getYaw cfg (init sid) hs)) =
       [1 ..< Suc (length (filter (\<lambda>r. on_channel r = Some c) hs))]
   \<and> sorted_wrt (<) (seq_numbers c (trace (run getYaw cfg (init sid) hs)))"
proof -
  have start: "counter c (init sid) = 0" "trace (init sid) = []"
    by (cases c; simp add: init_def)+
  have numbers: "seq_numbers c (trace (run getYaw cfg (init sid) hs)) =
       [1 ..< Suc (length (filter (\<lambda>r. on_channel r = Some c) hs))]"
    by (simp add: run_seq_numbers start)
  have "sorted_wrt (<) (seq_numbers c (trace (run getYaw cfg (init sid) hs)))"
    unfolding numbers by (simp del: upt_Suc)
  with numbers show ?thesis
    by (simp add: handle_counter handle_seq_numbers run_counter)
qed

theorem sequence_counters_witness:
  "seq_numbers Laser (trace (run zero_yaw Map.empty (init ''token'')
      [LaserReading (scan_at 1 0) True, OdomReading an_odometry, MapList,
       LaserReading (scan_at 2 0) False, OdomReading an_odometry,
       OdomReading an_odometry])) = [1, 2]
   \<and> seq_numbers Odom (trace (run zero_yaw Map.empty (init ''token'')
      [LaserReading (scan_at 1 0) True, OdomReading an_odometry, MapList,
       LaserReading (scan_at 2 0) False, OdomReading an_odometry,
       OdomReading an_odometry])) = [1, 2, 3]
   \<and> seq_numbers Laser2 (trace (run zero_yaw Map.empty (init ''token'')
      [LaserReading (scan_at 1 0) True, OdomReading an_odometry, MapList,
       LaserReading (scan_at 2 0) False, OdomReading an_odometry,
       OdomReading an_odometry])) = []
   \<and> counter Odom (handle zero_yaw Map.empty (init ''token'') (OdomReading an_odometry)) = 1
   \<and> counter Laser (handle zero_yaw Map.empty (init ''token'') (OdomReading an_odometry)) = 0"
proof -
  let ?hs = "[LaserReading (scan_at 1 0) True, OdomReading an_odometry, MapList,
       LaserReading (scan_at 2 0) False, OdomReading an_odometry, OdomReading an_odometry]"
  let ?st = "init ''token''"
  have n: "[1 ..< Suc (length (filter (\<lambda>r. on_channel r = Some Laser) ?hs))] = [1, 2]"
    "[1 ..< Suc (length (filter (\<lambda>r. on_channel r = Some Odom) ?hs))] = [1, 2, 3]"
    "[1 ..< Suc (length (filter (\<lambda>r. on_channel r = Some Laser2) ?hs))] = []"
    by (simp_all add: upt_rec)
  have c: "(if on_channel (OdomReading an_odometry) = Some Odom
            then Suc (counter Odom ?st) else counter Odom ?st) = 1"
    "(if on_channel (OdomReading an_odometry) = Some Laser
            then Suc (counter Laser ?st) else counter Laser ?st) = 0"
    by (simp_all add: init_def)
  from sequence_counters [of Laser zero_yaw Map.empty ?st "OdomReading an_odometry" ?hs "''token''"]
  have 1: "seq_numbers Laser (trace (run zero_yaw Map.empty ?st ?hs)) = [1, 2]"
    and 5: "counter Laser (handle zero_yaw Map.empty ?st (OdomReading an_odometry)) = 0"
    unfolding n c by blast+
  from sequence_counters [of Odom zero_yaw Map.empty ?st "OdomReading an_odometry" ?hs "''token''"]
  have 2: "seq_numbers Odom (trace (run zero_yaw Map.empty ?st ?hs)) = [1, 2, 3]"
    and 4: "counter Odom (handle zero_yaw Map.empty ?st (OdomReading an_odometry)) = 1"
    unfolding n c by blast+
  from sequence_counters [of Laser2 zero_yaw Map.empty ?st "OdomReading an_odometry" ?hs "''token''"]
  have 3: "seq_numbers Laser2 (trace (run zero_yaw Map.empty ?st ?hs)) = []"
    unfolding n by blast
  from 1 2 3 4 5 show ?thesis by blast
qed

subsection \<open>Diagnostic check of a laser scan\<close>

text \<open>
  The scan of the specification's scenario, in the arithmetic of the model: 101 ranges
  from angle 0 in steps of 0.01 pass with the maximum angle 1.0 and are logged as
  invalid with the maximum angle 1.5.
\<close>

lemma checkLaserScan_scan_101:
  "checkLaserScan (scan_101 1.0) ''laser'' Map.empty st = st"
  "checkLaserScan (scan_101 1.5) ''laser'' Map.empty st = emit (LogError InvalidScanAngles) st"
  by (simp_all add: checkLaserScan_def scan_101_def size_minus_1_def Let_def)

text \<open>
  Claim C6 at a scan without ranges, with the minimum angle 0, the increment 0.5 and the
  maximum angle -0.5. By the claim's formula the scan passes:
  \<open>|0 + (0 - 1) * 0.5 - (-0.5)| = 0\<close> is at most \<open>|0.5 * 0.5|\<close>. The node computes
  \<open>ranges.size() - 1\<close> in \<open>size_t\<close>, gets \<open>2^64 - 1\<close>, and logs the scan as invalid.
\<close>

theorem checkLaserScan_empty_scan:
  "trace (checkLaserScan empty_scan ''laser'' Map.empty (init ''token'')) =
     [LogError InvalidScanAngles]
   \<and> \<bar>angle_min empty_scan
        + real_of_int (int (length (ranges empty_scan)) - 1) * angle_increment empty_scan
        - angle_max empty_scan\<bar>
      \<le> \<bar>0.5 * angle_increment empty_scan\<bar>
   \<and> length (ranges empty_scan) = length (intensities empty_scan)"
  by (simp add: checkLaserScan_def empty_scan_def size_minus_1_def emit_def init_def)

subsection \<open>Scan time\<close>

lemma last_unset_stamp_snoc:
  "last_unset_stamp (ms @ [m]) = (if scan_time m = 0 then stamp m else last_unset_stamp ms)"
  by (simp add: last_unset_stamp_def)

lemma handle_prev_laser_timestamp:
  "prev_laser_timestamp (handle getYaw cfg st r) =
     (case r of
        LaserReading msg io \<Rightarrow>
          if scan_time msg = 0 then stamp msg else prev_laser_timestamp st
      | _ \<Rightarrow> prev_laser_timestamp st)"
  by (cases r) (simp_all add: callback_defs Let_def split: prod.splits)

lemma handle_prev_laser2_timestamp:
  "prev_laser2_timestamp (handle getYaw cfg st r) =
     (case r of
        Laser2Reading msg io \<Rightarrow>
          if scan_time msg = 0 then stamp msg else prev_laser2_timestamp st
      | _ \<Rightarrow> prev_laser2_timestamp st)"
  by (cases r) (simp_all add: callback_defs Let_def split: prod.splits)

text \<open>
  After any run, the previous time stamp of a laser channel is the time stamp of the
  most recent reading of that channel whose scan time was unset.
\<close>

lemma run_prev_laser_timestamp:
  "prev_laser_timestamp (run getYaw cfg (init sid) hs) = last_unset_stamp (scans_on Laser hs)"
proof (induction hs rule: rev_induct)
  case Nil
  show ?case by (simp add: run_Nil init_def last_unset_stamp_def)
next
  case (snoc r hs)
  show ?case
    by (cases r)
       (simp_all add: run_snoc handle_prev_laser_timestamp snoc.IH scans_on_append
          last_unset_stamp_snoc del: handle.simps)
qed

lemma run_prev_laser2_timestamp:
  "prev_laser2_timestamp (run getYaw cfg (init sid) hs) = last_unset_stamp (scans_on Laser2 hs)"
proof (induction hs rule: rev_induct)
  case Nil
  show ?case by (simp add: run_Nil init_def last_unset_stamp_def)
next
  case (snoc r hs)
  show ?case
    by (cases r)
       (simp_all add: run_snoc handle_prev_laser2_timestamp snoc.IH scans_on_append
          last_unset_stamp_snoc del: handle.simps)
qed

lemma laser_callback_sent:
  "sent_scans Laser (trace (laser_callback msg io cfg st)) =
     sent_scans Laser (trace st) @
       [if scan_time msg = 0 \<and> prev_laser_timestamp st \<noteq> 0
        then msg\<lparr>scan_time := seconds (stamp msg - prev_laser_timestamp st)\<rparr> else msg]"
  by (simp add: callback_defs Let_def sent_scans_append split: prod.splits)

lemma laser2_callback_sent:
  "sent_scans Laser2 (trace (laser2_callback msg io cfg st)) =
     sent_scans Laser2 (trace st) @
       [if scan_time msg = 0 \<and> prev_laser2_timestamp st \<noteq> 0
        then msg\<lparr>scan_time := seconds (stamp msg - prev_laser2_timestamp st)\<rparr> else msg]"
  by (simp add: callback_defs Let_def sent_scans_append split: prod.splits)

text \<open>
  Claim C8, as stated, does not hold. In the run below the laser channel receives four
  readings, stamped 0 s, 5 s, 7 s and 9 s; the third has the scan time 0.1 s, the others
  have none. As the claim is worded, the second reading would get the scan time 5 s and
  the fourth 2 s. The node leaves the second reading unset, because the stamp of the
  reading before is 0, and gives the fourth one 4 s, the time since the second reading:
  the third reading, whose scan time is set, is not remembered.
\<close>

theorem scan_time_counterexample:
  "map scan_time (sent_scans Laser (trace (run zero_yaw Map.empty (init ''token'')
      [LaserReading (scan_at 0 0) False, LaserReading (scan_at 5 0) False,
       LaserReading (scan_at 7 0.1) False, LaserReading (scan_at 9 0) False])))
     = [0, 0, 0.1, 4]
   \<and> map scan_time (scans_as_specified False 0
         [scan_at 0 0, scan_at 5 0, scan_at 7 0.1, scan_at 9 0])
     = [0, 5, 0.1, 2]
   \<and> sent_scans Laser (trace (run zero_yaw Map.empty (init ''token'')
        [LaserReading (scan_at 0 0) False, LaserReading (scan_at 5 0) False,
         LaserReading (scan_at 7 0.1) False, LaserReading (scan_at 9 0) False]))
     \<noteq> scans_as_specified False 0
         (scans_on Laser
           [LaserReading (scan_at 0 0) False, LaserReading (scan_at 5 0) False,
            LaserReading (scan_at 7 0.1) False, LaserReading (scan_at 9 0) False])"
proof -
  have sent: "map scan_time (sent_scans Laser (trace (run zero_yaw Map.empty (init ''token'')
      [LaserReading (scan_at 0 0) False, LaserReading (scan_at 5 0) False,
       LaserReading (scan_at 7 0.1) False, LaserReading (scan_at 9 0) False])))
     = [0, 0, 0.1, 4]"
    by (simp add: run_def init_def laser_callback_def Let_def emit_def scan_at_def seconds_def)
  have spec: "map scan_time (scans_as_specified False 0
         [scan_at 0 0, scan_at 5 0, scan_at 7 0.1, scan_at 9 0])
     = [0, 5, 0.1, 2]"
    by (simp add: scan_at_def seconds_def)
  have "map scan_time (sent_scans Laser (trace (run zero_yaw Map.empty (init ''token'')
      [LaserReading (scan_at 0 0) False, LaserReading (scan_at 5 0) False,
       LaserReading (scan_at 7 0.1) False, LaserReading (scan_at 9 0) False])))
     \<noteq> map scan_time (scans_as_specified False 0
         [scan_at 0 0, scan_at 5 0, scan_at 7 0.1, scan_at 9 0])"
    unfolding sent spec by simp
  then have differ: "sent_scans Laser (trace (run zero_yaw Map.empty (init ''token'')
        [LaserReading (scan_at 0 0) False, LaserReading (scan_at 5 0) False,
         LaserReading (scan_at 7 0.1) False, LaserReading (scan_at 9 0) False]))
     \<noteq> scans_as_specified False 0
         [scan_at 0 0, scan_at 5 0, scan_at 7 0.1, scan_at 9 0]"
    by auto
  have received: "scans_on Laser
           [LaserReading (scan_at 0 0) False, LaserReading (scan_at 5 0) False,
            LaserReading (scan_at 7 0.1) False, LaserReading (scan_at 9 0) False]
     = [scan_at 0 0, scan_at 5 0, scan_at 7 0.1, scan_at 9 0]"
    by simp
  from sent spec differ show ?thesis unfolding received by blast
qed

text \<open>
  Claim C8, amended. For a laser scan that arrives on a laser channel after any run of
  the node: a scan whose scan time is set is encoded unchanged. A scan whose scan time
  is unset is encoded unchanged, with the scan time still unset, when the channel has
  had no earlier reading with an unset scan time, or when the most recent such reading
  was stamped 0; otherwise its scan time is set to the difference between its header
  time stamp and the header time stamp of the most recent earlier reading of the same
  channel whose scan time was unset.
\<close>

theorem scan_time_derived:
  "(let st = run getYaw cfg (init sid) hs;
        prev = last_unset_stamp (scans_on Laser hs)
    in sent_scans Laser (trace (laser_callback msg io cfg st)) =
         sent_scans Laser (trace st) @
           [if scan_time msg = 0 \<and> prev \<noteq> 0
            then msg\<lparr>scan_time := seconds (stamp msg - prev)\<rparr> else msg])
   \<and> (let st = run getYaw cfg (init sid) hs;
        prev = last_unset_stamp (scans_on Laser2 hs)
    in sent_scans Laser2 (trace (laser2_callback msg io cfg st)) =
         sent_scans Laser2 (trace st) @
           [if scan_time msg = 0 \<and> prev \<noteq> 0
            then msg\<lparr>scan_time := seconds (stamp msg - prev)\<rparr> else msg])"
  by (simp add: Let_def laser_callback_sent laser2_callback_sent
        run_prev_laser_timestamp run_prev_laser2_timestamp)

theorem scan_time_derived_witness:
  "map scan_time (sent_scans Laser (trace (laser_callback (scan_at 9 0) False Map.empty
      (run zero_yaw Map.empty (init ''token'')
        [LaserReading (scan_at 3 0) False, Laser2Reading (scan_at 4 0) False,
         LaserReading (scan_at 7 0.1) False]))))
     = [0, 0.1, 6]
   \<and> map scan_time (sent_scans Laser2 (trace (laser2_callback (scan_at 9 0) False Map.empty
      (run zero_yaw Map.empty (init ''token'')
        [LaserReading (scan_at 3 0) False, Laser2Reading (scan_at 4 0) False,
         LaserReading (scan_at 7 0.1) False]))))
     = [0, 5]"
proof -
  let ?hs = "[LaserReading (scan_at 3 0) False, Laser2Reading (scan_at 4 0) False,
         LaserReading (scan_at 7 0.1) False]"
  have before: "map scan_time (sent_scans Laser (trace (run zero_yaw Map.empty (init ''token'') ?hs)))
      = [0, 0.1]"
    "map scan_time (sent_scans Laser2 (trace (run zero_yaw Map.empty (init ''token'') ?hs)))
      = [0]"
    by (simp_all add: run_def init_def laser_callback_def laser2_callback_def Let_def emit_def
          scan_at_def seconds_def)
  have prev: "last_unset_stamp (scans_on Laser ?hs) = 3 * 10 ^ 9"
    "last_unset_stamp (scans_on Laser2 ?hs) = 4 * 10 ^ 9"
    by (simp_all add: last_unset_stamp_def scan_at_def)
  have new: "scan_time (scan_at 9 0) = 0" "stamp (scan_at 9 0) = 9 * 10 ^ 9"
    "seconds (9 * 10 ^ 9 - 3 * 10 ^ 9) = 6" "seconds (9 * 10 ^ 9 - 4 * 10 ^ 9) = 5"
    by (simp_all add: scan_at_def seconds_def)
  from scan_time_derived [of zero_yaw Map.empty "''token''" ?hs "scan_at 9 0" False]
  show ?thesis
    unfolding Let_def prev by (simp add: before new seconds_def)
qed

subsection \<open>Seed pose\<close>

text \<open>
  Claim C4. A seed pose whose frame is not the map frame makes the bridge log the error
  that names both frames, and nothing else: no session query is built and the session
  client is not called. A seed pose in the map frame makes it build one session query
  and issue one call of \<open>clientLocalizationSetSeed\<close>, with the seed enforced and the
  pose (x, y, yaw).
\<close>

theorem setSeedCallback_calls:
  "(frame_id (header msg) \<noteq> MAP_FRAME_ID \<longrightarrow>
      setSeedCallback getYaw msg st =
        st\<lparr>trace := trace st @ [LogError (WrongFrame (frame_id (header msg)) MAP_FRAME_ID)]\<rparr>)
   \<and> (frame_id (header msg) = MAP_FRAME_ID \<longrightarrow>
      setSeedCallback getYaw msg st =
        st\<lparr>trace := trace st @
          [SessionQuery,
           Call ''clientLocalizationSetSeed''
             [(''sessionId'', DString (session_id st)),
              (''enforceSeed'', DBool True),
              (''seedPose'', DPose2d (position_x (pose msg)) (position_y (pose msg))
                               (getYaw (orientation (pose msg))))] ]\<rparr>)"
  by (simp add: setSeedCallback_def emit_def call_def getSessionQuery_def)

theorem setSeedCallback_calls_witness:
  "frame_id (header (seed_in ''odom'')) \<noteq> MAP_FRAME_ID
   \<and> trace (setSeedCallback zero_yaw (seed_in ''odom'') (init ''token'')) =
       [LogError (WrongFrame ''odom'' ''map'')]
   \<and> frame_id (header (seed_in ''map'')) = MAP_FRAME_ID
   \<and> trace (setSeedCallback zero_yaw (seed_in ''map'') (init ''token'')) =
       [SessionQuery,
        Call ''clientLocalizationSetSeed''
          [(''sessionId'', DString ''token''), (''enforceSeed'', DBool True),
           (''seedPose'', DPose2d 1 2 0)] ]"
proof -
  have odom: "frame_id (header (seed_in ''odom'')) \<noteq> MAP_FRAME_ID"
    by (simp add: seed_in_def MAP_FRAME_ID_def)
  have map: "frame_id (header (seed_in ''map'')) = MAP_FRAME_ID"
    by (simp add: seed_in_def MAP_FRAME_ID_def)
  from setSeedCallback_calls [of "seed_in ''odom''" zero_yaw "init ''token''"] odom
  have 1: "trace (setSeedCallback zero_yaw (seed_in ''odom'') (init ''token'')) =
       [LogError (WrongFrame ''odom'' ''map'')]"
    by (simp add: seed_in_def MAP_FRAME_ID_def init_def)
  from setSeedCallback_calls [of "seed_in ''map''" zero_yaw "init ''token''"] map
  have 2: "trace (setSeedCallback zero_yaw (seed_in ''map'') (init ''token'')) =
       [SessionQuery,
        Call ''clientLocalizationSetSeed''
          [(''sessionId'', DString ''token''), (''enforceSeed'', DBool True),
           (''seedPose'', DPose2d 1 2 0)] ]"
    by (simp add: seed_in_def MAP_FRAME_ID_def init_def zero_yaw_def)
  from odom map 1 2 show ?thesis by blast
qed

section \<open>Properties of the receiving interfaces\<close>

subsection \<open>Covariance of the localization pose\<close>

lemma covariance_poseWithCov_set:
  "length (covariance (poseWithCov p (a, b, c, d, e, f))) = 36"
  "covariance (poseWithCov p (a, b, c, d, e, f)) ! 0 = a"
  "covariance (poseWithCov p (a, b, c, d, e, f)) ! 1 = b"
  "covariance (poseWithCov p (a, b, c, d, e, f)) ! 5 = c"
  "covariance (poseWithCov p (a, b, c, d, e, f)) ! 7 = d"
  "covariance (poseWithCov p (a, b, c, d, e, f)) ! 11 = e"
  "covariance (poseWithCov p (a, b, c, d, e, f)) ! 35 = f"
  by (simp_all add: poseWithCov_def)

lemma covariance_poseWithCov_zero:
  "i < 36 \<Longrightarrow> i \<notin> {0, 1, 5, 7, 11, 35}
   \<Longrightarrow> covariance (poseWithCov p (a, b, c, d, e, f)) ! i = 0"
  by (simp add: poseWithCov_def)

lemma header_pose_poseWithCov:
  "header (poseWithCov p cov6) = ps_header p" "pose (poseWithCov p cov6) = ps_pose p"
  by (simp_all add: poseWithCov_def split: prod.splits)

text \<open>
  Claim C3. When the converter decodes a localization pose datagram with the six
  covariance values a, b, c, d, e, f, the handler publishes one pose-with-uncertainty
  message (between the appliance's pose message and the lidar odometry pose), with the
  header and the pose of the decoded pose. Its covariance array has 36 elements; the
  elements 0, 1, 5, 7, 11 and 35 are a, b, c, d, e and f, and every other element is
  zero.
\<close>

theorem localization_pose_covariance:
  assumes "convert buf = Parsed (client_localization_pose, p, (a, b, c, d, e, f), lidar) rest"
  shows "\<exists>pwc.
     ClientLocalizationPose_tryToParseData convert laser_frame_id buf =
       Parsed [Transform p MAP_FRAME_ID laser_frame_id,
               LocalizationPose client_localization_pose,
               PoseWithCov pwc,
               LidarOdoPose lidar] rest
     \<and> header pwc = ps_header p \<and> pose pwc = ps_pose p
     \<and> length (covariance pwc) = 36
     \<and> covariance pwc ! 0 = a \<and> covariance pwc ! 1 = b \<and> covariance pwc ! 5 = c
     \<and> covariance pwc ! 7 = d \<and> covariance pwc ! 11 = e \<and> covariance pwc ! 35 = f
     \<and> (\<forall>i < 36. i \<notin> {0, 1, 5, 7, 11, 35} \<longrightarrow> covariance pwc ! i = 0)"
proof (intro exI conjI)
  show "ClientLocalizationPose_tryToParseData convert laser_frame_id buf =
       Parsed [Transform p MAP_FRAME_ID laser_frame_id,
               LocalizationPose client_localization_pose,
               PoseWithCov (poseWithCov p (a, b, c, d, e, f)),
               LidarOdoPose lidar] rest"
    using assms by (simp add: ClientLocalizationPose_tryToParseData_def)
  show "\<forall>i < 36. i \<notin> {0, 1, 5, 7, 11, 35}
          \<longrightarrow> covariance (poseWithCov p (a, b, c, d, e, f)) ! i = 0"
    using covariance_poseWithCov_zero by blast
qed (simp_all only: covariance_poseWithCov_set header_pose_poseWithCov)

theorem localization_pose_covariance_witness:
  "ex_convert [] = Parsed ((), ex_pose, (1, 2, 3, 4, 5, 6), ex_pose) []
   \<and> (\<exists>pwc. ClientLocalizationPose_tryToParseData ex_convert ''laser'' [] =
         Parsed [Transform ex_pose MAP_FRAME_ID ''laser'', LocalizationPose (),
                 PoseWithCov pwc, LidarOdoPose ex_pose] []
       \<and> covariance pwc ! 0 = 1 \<and> covariance pwc ! 5 = 3 \<and> covariance pwc ! 35 = 6
       \<and> covariance pwc ! 2 = 0 \<and> covariance pwc ! 34 = 0)"
proof -
  have h: "ex_convert [] = Parsed ((), ex_pose, (1, 2, 3, 4, 5, 6), ex_pose) []"
    by (simp add: ex_convert_def)
  from localization_pose_covariance
    [where convert = ex_convert and buf = "[]" and laser_frame_id = "''laser''", OF h]
  obtain pwc where
    p: "ClientLocalizationPose_tryToParseData ex_convert ''laser'' [] =
         Parsed [Transform ex_pose MAP_FRAME_ID ''laser'', LocalizationPose (),
                 PoseWithCov pwc, LidarOdoPose ex_pose] []"
    and v: "covariance pwc ! 0 = 1" "covariance pwc ! 5 = 3" "covariance pwc ! 35 = 6"
    and z: "\<forall>i < 36. i \<notin> {0, 1, 5, 7, 11, 35} \<longrightarrow> covariance pwc ! i = 0"
    by blast
  from z have "covariance pwc ! 2 = 0" "covariance pwc ! 34 = 0" by simp_all
  with h p v show ?thesis by blast
qed

subsection \<open>The read loop\<close>

lemma read_loop_Nil: "read_loop parse [] pub = Some ([], pub, None)"
  by (subst read_loop.simps) simp

lemma read_loop_Parsed:
  "buf \<noteq> [] \<Longrightarrow> parse buf = Parsed ms rest \<Longrightarrow>
   read_loop parse buf pub = read_loop parse rest (pub @ ms)"
  by (subst read_loop.simps) simp

lemma read_loop_Incomplete:
  "buf \<noteq> [] \<Longrightarrow> parse buf = Incomplete rest \<Longrightarrow>
   read_loop parse buf pub = Some (rest, pub, Some IosFailure)"
  by (subst read_loop.simps) simp

lemma read_loop_Failed:
  "buf \<noteq> [] \<Longrightarrow> parse buf = Failed rest \<Longrightarrow>
   read_loop parse buf pub = Some (rest, pub, Some OtherException)"
  by (subst read_loop.simps) simp

lemma onReadEvent_result:
  assumes "read_loop parse (buffer st @ chunk) (published st) = Some (buf, pub, e)"
  shows "\<exists>st'. onReadEvent parse chunk st = Some (Inr st')
     \<and> buffer st' = buf \<and> published st' = pub
     \<and> reactor_running st' = reactor_running st \<and> socket_open st' = socket_open st
     \<and> rx_log st' = rx_log st
          @ (if buffer st @ chunk = [] then [PeerClosedNotice] else [])
          @ (if e = Some OtherException then [CaughtException] else [])"
proof (cases "buffer st @ chunk = []")
  case True
  with assms show ?thesis
    by (cases e) (auto simp: onReadEvent_def Let_def split: exn.splits)
next
  case False
  with assms show ?thesis
    by (cases e) (auto simp: onReadEvent_def Let_def split: exn.splits)
qed

subsection \<open>Records that arrive in parts\<close>

text \<open>
  The handler restores nothing after an incomplete attempt: when the first decoding
  step of an event raises the \<open>std::ios_base::failure\<close>, the event ends with exactly
  the bytes unread that the step has left unread, and publishes nothing.
\<close>

lemma onReadEvent_incomplete_attempt:
  assumes "parse (buffer st @ chunk) = Incomplete rest" "buffer st @ chunk \<noteq> []"
  shows "\<exists>st'. onReadEvent parse chunk st = Some (Inr st')
     \<and> buffer st' = rest \<and> published st' = published st \<and> rx_log st' = rx_log st"
proof -
  have "read_loop parse (buffer st @ chunk) (published st)
      = Some (rest, published st, Some IosFailure)"
    using assms by (simp add: read_loop_Incomplete)
  from onReadEvent_result [OF this] assms(2) show ?thesis by auto
qed


subsection \<open>Decode errors\<close>

lemma read_loop_returns:
  assumes "consumes parse"
  shows "\<exists>buf' pub' e. read_loop parse buf pub = Some (buf', pub', e)"
proof (induction buf arbitrary: pub rule: length_induct)
  case (1 buf)
  show ?case
  proof (cases "buf = []")
    case True
    then show ?thesis by (simp add: read_loop_Nil)
  next
    case False
    show ?thesis
    proof (cases "parse buf")
      case (Parsed ms rest)
      with assms have "length rest < length buf"
        unfolding consumes_def by blast
      with 1 have "\<exists>buf' pub' e. read_loop parse rest (pub @ ms) = Some (buf', pub', e)"
        by blast
      with False Parsed show ?thesis by (simp add: read_loop_Parsed)
    next
      case (Incomplete rest)
      with False show ?thesis by (simp add: read_loop_Incomplete)
    next
      case (Failed rest)
      with False show ?thesis by (simp add: read_loop_Failed)
    qed
  qed
qed

lemma onReadEvent_returns:
  assumes "consumes parse"
  shows "\<exists>st'. onReadEvent parse chunk st = Some (Inr st')"
proof -
  from read_loop_returns [OF assms, of "buffer st @ chunk" "published st"]
  obtain buf pub e where
    "read_loop parse (buffer st @ chunk) (published st) = Some (buf, pub, e)"
    by blast
  from onReadEvent_result [OF this] show ?thesis by blast
qed

lemma onReadEvent_no_escape: "onReadEvent parse chunk st \<noteq> Some (Inl x)"
  by (auto simp: onReadEvent_def Let_def split: option.splits exn.splits)

text \<open>
  Claim C9. The read-event handler never lets an exception escape. With a decoding step
  that consumes at least one byte whenever it succeeds, the handler returns, and leaves
  the reactor running and the socket open as they were. When the decode loop of the
  event ends with an error other than "incomplete", the handler logs the error, keeps
  the messages published before the failing attempt, and keeps the bytes that the
  failing attempt left; the handler runs and returns again at every later readiness
  event.
\<close>

theorem onReadEvent_contains_decode_errors:
  "onReadEvent parse chunk st \<noteq> Some (Inl x)
   \<and> (consumes parse \<longrightarrow>
        (\<exists>st'. onReadEvent parse chunk st = Some (Inr st')
           \<and> reactor_running st' = reactor_running st \<and> socket_open st' = socket_open st
           \<and> (\<forall>buf pub. read_loop parse (buffer st @ chunk) (published st)
                           = Some (buf, pub, Some OtherException) \<longrightarrow>
                 buffer st' = buf \<and> published st' = pub
                 \<and> rx_log st' = rx_log st @ [CaughtException])
           \<and> (\<forall>chunk'. \<exists>st''. onReadEvent parse chunk' st' = Some (Inr st''))))"
proof (intro conjI impI)
  show "onReadEvent parse chunk st \<noteq> Some (Inl x)" by (rule onReadEvent_no_escape)
next
  assume c: "consumes parse"
  from read_loop_returns [OF c, of "buffer st @ chunk" "published st"]
  obtain buf pub e where
    r: "read_loop parse (buffer st @ chunk) (published st) = Some (buf, pub, e)"
    by blast
  from onReadEvent_result [OF r]
  obtain st' where ev: "onReadEvent parse chunk st = Some (Inr st')"
    and st': "buffer st' = buf" "published st' = pub"
      "reactor_running st' = reactor_running st" "socket_open st' = socket_open st"
    and lg: "rx_log st' = rx_log st
          @ (if buffer st @ chunk = [] then [PeerClosedNotice] else [])
          @ (if e = Some OtherException then [CaughtException] else [])"
    by blast
  have ne: "e = Some OtherException \<Longrightarrow> buffer st @ chunk \<noteq> []"
  proof
    assume "e = Some OtherException" "buffer st @ chunk = []"
    with r show False by (simp add: read_loop_Nil)
  qed
  have "\<forall>buf' pub'. read_loop parse (buffer st @ chunk) (published st)
                           = Some (buf', pub', Some OtherException) \<longrightarrow>
                 buffer st' = buf' \<and> published st' = pub'
                 \<and> rx_log st' = rx_log st @ [CaughtException]"
    using r st' lg ne by auto
  moreover have "\<forall>chunk'. \<exists>st''. onReadEvent parse chunk' st' = Some (Inr st'')"
    using onReadEvent_returns [OF c] by blast
  ultimately show "\<exists>st'. onReadEvent parse chunk st = Some (Inr st')
           \<and> reactor_running st' = reactor_running st \<and> socket_open st' = socket_open st
           \<and> (\<forall>buf pub. read_loop parse (buffer st @ chunk) (published st)
                           = Some (buf, pub, Some OtherException) \<longrightarrow>
                 buffer st' = buf \<and> published st' = pub
                 \<and> rx_log st' = rx_log st @ [CaughtException])
           \<and> (\<forall>chunk'. \<exists>st''. onReadEvent parse chunk' st' = Some (Inr st''))"
    using ev st' by blast
qed

lemma consumes_checked_parse: "consumes checked_parse"
  unfolding consumes_def
proof (intro allI impI)
  fix buf :: "byte list" and ms rest
  assume "checked_parse buf = Parsed ms rest"
  then show "length rest < length buf"
    by (cases buf) (auto simp: lp_parse_def read_n_def split: if_splits)
qed

text \<open>
  The bytes of a record, of a refused record and of another record arrive in one event:
  the first record is published, the error is logged, and the bytes after the refused
  length byte stay buffered. The next event publishes the record they hold.
\<close>

theorem onReadEvent_contains_decode_errors_witness:
  "consumes checked_parse
   \<and> read_loop checked_parse (buffer (rx_init :: byte list rx_state) @ [1, 7, 255, 1, 9])
       (published (rx_init :: byte list rx_state)) = Some ([1, 9], [ [7] ], Some OtherException)
   \<and> (\<exists>st'. onReadEvent checked_parse [1, 7, 255, 1, 9] rx_init = Some (Inr st')
        \<and> reactor_running st' \<and> socket_open st'
        \<and> buffer st' = [1, 9] \<and> published st' = [ [7] ] \<and> rx_log st' = [CaughtException]
        \<and> (\<exists>st''. onReadEvent checked_parse [] st' = Some (Inr st'')))
   \<and> feed checked_parse [ [1, 7, 255, 1, 9], [] ] rx_init =
       Some (Inr \<lparr>buffer = [], published = [ [7], [9] ], rx_log = [CaughtException],
                  reactor_running = True, socket_open = True\<rparr>)"
proof -
  have r: "read_loop checked_parse (buffer (rx_init :: byte list rx_state) @ [1, 7, 255, 1, 9])
       (published (rx_init :: byte list rx_state)) = Some ([1, 9], [ [7] ], Some OtherException)"
    by (simp add: rx_init_def read_loop.simps lp_parse_def read_n_def)
  have f: "feed checked_parse [ [1, 7, 255, 1, 9], [] ] rx_init =
       Some (Inr \<lparr>buffer = [], published = [ [7], [9] ], rx_log = [CaughtException],
                  reactor_running = True, socket_open = True\<rparr>)"
    by (simp add: onReadEvent_def rx_init_def read_loop.simps lp_parse_def read_n_def)
  from onReadEvent_contains_decode_errors
    [of checked_parse "[1, 7, 255, 1, 9]" "rx_init :: byte list rx_state"]
    consumes_checked_parse
  obtain st' where "onReadEvent checked_parse [1, 7, 255, 1, 9] rx_init = Some (Inr st')"
    "reactor_running st' = reactor_running (rx_init :: byte list rx_state)"
    "socket_open st' = socket_open (rx_init :: byte list rx_state)"
    "\<forall>buf pub. read_loop checked_parse
         (buffer (rx_init :: byte list rx_state) @ [1, 7, 255, 1, 9])
         (published (rx_init :: byte list rx_state)) = Some (buf, pub, Some OtherException) \<longrightarrow>
       buffer st' = buf \<and> published st' = pub
       \<and> rx_log st' = rx_log (rx_init :: byte list rx_state) @ [CaughtException]"
    "\<forall>chunk'. \<exists>st''. onReadEvent checked_parse chunk' st' = Some (Inr st'')"
    by blast
  with r have "onReadEvent checked_parse [1, 7, 255, 1, 9] rx_init = Some (Inr st')
        \<and> reactor_running st' \<and> socket_open st'
        \<and> buffer st' = [1, 9] \<and> published st' = [ [7] ] \<and> rx_log st' = [CaughtException]
        \<and> (\<exists>st''. onReadEvent checked_parse [] st' = Some (Inr st''))"
    by (simp add: rx_init_def)
  with r f consumes_checked_parse show ?thesis by blast
qed


end
